theory Spec2Isabelle
  imports Complex_Main "HOL-Library.Multiset" "HOL-Library.Sublist"
begin

section \<open>Tripledoc: the triple document model\<close>

text \<open>
  A shallow embedding of tripledoc's \<^verbatim>\<open>src/index.ts\<close>, \<^verbatim>\<open>src/subject.ts\<close>,
  \<^verbatim>\<open>src/store.ts\<close> and of the two revisions of \<^verbatim>\<open>document.ts\<close> that the repository
  holds (the earlier one, which saves through the shared rdflib store, and the later one,
  which hands out a new document per save).

  Closures become records on an explicit heap (\<open>world\<close>): a document, the metadata
  object it closes over and a subject are each a cell with an address, so that two
  documents sharing one metadata object, or a subject shared by two callers, are what
  they are in the program. A rejected promise or a thrown exception is the \<open>Inl\<close>
  of a sum. What the program calls but does not contain (the platform's \<^verbatim>\<open>Date\<close> and
  \<^verbatim>\<open>URL\<close>, rdflib's literal constructors, the link header parser, the HTTP transport)
  is a parameter.
\<close>

subsection \<open>Terms and statements\<close>

type_synonym Reference = string

text \<open>
  A literal as rdflib and N3 hold it: the lexical form, the language tag (empty when
  absent) and the IRI of the datatype.
\<close>

record literal =
  lit_value :: string
  lang :: string
  datatype_uri :: string

datatype node = NamedNode string | BlankNode string | Literal literal

text \<open>A statement (rdflib) or quad (N3); rdflib calls the fourth component \<open>why\<close>.\<close>

record Quad =
  subject :: node
  predicate :: node
  object :: node
  graph :: node

definition sym :: "Reference \<Rightarrow> node" where
  "sym iri = NamedNode iri"

definition st :: "node \<Rightarrow> node \<Rightarrow> node \<Rightarrow> node \<Rightarrow> Quad" where
  "st s p ob g = \<lparr>subject = s, predicate = p, object = ob, graph = g\<rparr>"

text \<open>
  \<^verbatim>\<open>triple.equals(other)\<close> of N3: terms are equal when their term types and values are
  (for a literal: value, language and datatype), quads when all four terms are.
\<close>

fun node_equals :: "node \<Rightarrow> node \<Rightarrow> bool" where
  "node_equals (NamedNode a) (NamedNode b) = (a = b)"
| "node_equals (BlankNode a) (BlankNode b) = (a = b)"
| "node_equals (Literal a) (Literal b) =
     (lit_value a = lit_value b \<and> lang a = lang b \<and> datatype_uri a = datatype_uri b)"
| "node_equals _ _ = False"

definition equals :: "Quad \<Rightarrow> Quad \<Rightarrow> bool" where
  "equals a b \<longleftrightarrow>
     node_equals (subject a) (subject b) \<and> node_equals (predicate a) (predicate b) \<and>
     node_equals (object a) (object b) \<and> node_equals (graph a) (graph b)"

definition xsd_string :: string where
  "xsd_string = ''http://www.w3.org/2001/XMLSchema#string''"

definition xsd_integer :: string where
  "xsd_integer = ''http://www.w3.org/2001/XMLSchema#integer''"

definition xsd_decimal :: string where
  "xsd_decimal = ''http://www.w3.org/2001/XMLSchema#decimal''"

definition xsd_dateTime :: string where
  "xsd_dateTime = ''http://www.w3.org/2001/XMLSchema#dateTime''"

definition rdf_langString :: string where
  "rdf_langString = ''http://www.w3.org/1999/02/22-rdf-syntax-ns#langString''"

definition rdf_type :: Reference where
  "rdf_type = ''http://www.w3.org/1999/02/22-rdf-syntax-ns#type''"

subsection \<open>The platform's strings and numbers\<close>

text \<open>
  A \<open>char\<close> stands for one code unit of a JavaScript string. A number is \<open>NaN\<close>, an
  infinity, or \<open>Finite q\<close>: the Number value for the rational \<open>q\<close>. The rounding of
  \<open>q\<close> to the nearest double, overflow to an infinity and the sign of zero are not
  modelled.
\<close>

datatype number = NaN | Finite rat | Infinity | NegInfinity

fun minus_number :: "number \<Rightarrow> number \<Rightarrow> number" where
  "minus_number (Finite a) (Finite b) = Finite (a - b)"
| "minus_number NaN _ = NaN"
| "minus_number _ NaN = NaN"
| "minus_number Infinity Infinity = NaN"
| "minus_number NegInfinity NegInfinity = NaN"
| "minus_number Infinity _ = Infinity"
| "minus_number NegInfinity _ = NegInfinity"
| "minus_number (Finite a) Infinity = NegInfinity"
| "minus_number (Finite a) NegInfinity = Infinity"

text \<open>\<^verbatim>\<open>s.substring(start, end)\<close>: both indices clamped to the string, swapped when out of order.\<close>

definition substring :: "string \<Rightarrow> int \<Rightarrow> int \<Rightarrow> string" where
  "substring s start finish =
     (let len = int (length s);
          finalStart = min (max start 0) len;
          finalEnd = min (max finish 0) len;
          from = min finalStart finalEnd;
          to = max finalStart finalEnd
      in take (nat (to - from)) (drop (nat from) s))"

text \<open>\<^verbatim>\<open>s.indexOf(c)\<close> for a one-character search string: the first index, or -1.\<close>

definition indexOf :: "string \<Rightarrow> char \<Rightarrow> int" where
  "indexOf s c = (if c \<in> set s then int (length (takeWhile (\<lambda>x. x \<noteq> c) s)) else - 1)"

definition isStrWhiteSpaceChar :: "char \<Rightarrow> bool" where
  "isStrWhiteSpaceChar c \<longleftrightarrow> (of_char c :: nat) \<in> {9, 10, 11, 12, 13, 32, 160}"

definition isDecimalDigit :: "char \<Rightarrow> bool" where
  "isDecimalDigit c \<longleftrightarrow> 48 \<le> (of_char c :: nat) \<and> (of_char c :: nat) \<le> 57"

definition digitsValue :: "string \<Rightarrow> nat" where
  "digitsValue ds = foldl (\<lambda>acc c. 10 * acc + (of_char c - 48)) 0 ds"

text \<open>The sign prefix of a numeric string: whether it is negative, and the rest.\<close>

definition stripSign :: "string \<Rightarrow> bool \<times> string" where
  "stripSign s =
     (case s of
        [] \<Rightarrow> (False, [])
      | c # cs \<Rightarrow> if c = CHR ''-'' then (True, cs) else if c = CHR ''+'' then (False, cs) else (False, s))"

text \<open>
  \<^verbatim>\<open>parseInt(s, 10)\<close>: leading white space is skipped, a sign is read, then the longest
  run of decimal digits; with no digit the result is \<open>NaN\<close>, whatever follows a digit
  run is ignored.
\<close>

definition parseInt10 :: "string \<Rightarrow> number" where
  "parseInt10 s =
     (let (negative, S) = stripSign (dropWhile isStrWhiteSpaceChar s);
          Z = takeWhile isDecimalDigit S
      in if Z = [] then NaN
         else Finite (of_int ((if negative then - 1 else 1) * int (digitsValue Z))))"

text \<open>The exponent part \<^verbatim>\<open>e[+-]digits\<close> at the head of a string, 0 when there is none.\<close>

definition exponentPart :: "string \<Rightarrow> int" where
  "exponentPart s =
     (case s of
        [] \<Rightarrow> 0
      | c # cs \<Rightarrow>
          if c = CHR ''e'' \<or> c = CHR ''E'' then
            (let (negative, r) = stripSign cs; ds = takeWhile isDecimalDigit r
             in if ds = [] then 0 else (if negative then - 1 else 1) * int (digitsValue ds))
          else 0)"

definition scale10 :: "rat \<Rightarrow> int \<Rightarrow> rat" where
  "scale10 q k = (if 0 \<le> k then q * 10 ^ nat k else q / 10 ^ nat (- k))"

text \<open>
  \<^verbatim>\<open>parseFloat(s)\<close>: leading white space is skipped, then the longest prefix that is a
  decimal literal (\<^verbatim>\<open>Infinity\<close>, or digits with an optional fraction and exponent) is
  read; with no such prefix the result is \<open>NaN\<close>.
\<close>

definition parseFloat :: "string \<Rightarrow> number" where
  "parseFloat s =
     (let (negative, u) = stripSign (dropWhile isStrWhiteSpaceChar s)
      in if take 8 u = ''Infinity'' then (if negative then NegInfinity else Infinity)
         else
           (let ip = takeWhile isDecimalDigit u;
                r1 = dropWhile isDecimalDigit u;
                hasDot = (take 1 r1 = ''.'');
                fp = (if hasDot then takeWhile isDecimalDigit (drop 1 r1) else []);
                r2 = (if hasDot then dropWhile isDecimalDigit (drop 1 r1) else r1)
            in if ip = [] \<and> fp = [] then NaN
               else Finite ((if negative then - 1 else 1) *
                      scale10 (of_nat (digitsValue (ip @ fp))) (exponentPart r2 - int (length fp)))))"

subsection \<open>Native values and what the platform and rdflib provide\<close>

text \<open>
  \<^verbatim>\<open>LiteralTypes = string | number | Date\<close>. The platform's \<^verbatim>\<open>Date\<close> is the type
  parameter \<open>'d\<close>; its constructor and setters, and rdflib's \<^verbatim>\<open>Literal.fromDate\<close> and
  \<^verbatim>\<open>Literal.fromNumber\<close>, are the fields of \<open>runtime\<close>.
\<close>

datatype 'd LiteralTypes = JString string | JNumber number | JDate 'd

record 'd runtime =
  Date_new :: "number \<Rightarrow> 'd"
  setUTCFullYear :: "'d \<Rightarrow> number \<Rightarrow> 'd"
  setUTCMonth :: "'d \<Rightarrow> number \<Rightarrow> 'd"
  setUTCDate :: "'d \<Rightarrow> number \<Rightarrow> 'd"
  setUTCHours :: "'d \<Rightarrow> number \<Rightarrow> 'd"
  setUTCMinutes :: "'d \<Rightarrow> number \<Rightarrow> 'd"
  setUTCSeconds :: "'d \<Rightarrow> number \<Rightarrow> 'd"
  Literal_fromDate :: "'d \<Rightarrow> literal"
  Literal_fromNumber :: "number \<Rightarrow> literal"

subsection \<open>index.ts\<close>

text \<open>
  The objects a subject reads are references (the IRI string of a named node), literals
  or blank nodes. \<open>isLiteral\<close> asks for the term type \<^verbatim>\<open>Literal\<close>, \<open>isReference\<close>
  for a string.
\<close>

fun isLiteral :: "node \<Rightarrow> bool" where
  "isLiteral (Literal _) = True"
| "isLiteral _ = False"

fun isReference :: "node \<Rightarrow> bool" where
  "isReference (NamedNode _) = True"
| "isReference _ = False"

abbreviation isNodeRef :: "node \<Rightarrow> bool" where
  "isNodeRef \<equiv> isReference"

fun isBlankNode :: "node \<Rightarrow> bool" where
  "isBlankNode (BlankNode _) = True"
| "isBlankNode _ = False"

subsection \<open>subject.ts: the literal codec\<close>

definition fromLiteral :: "'d runtime \<Rightarrow> literal \<Rightarrow> 'd LiteralTypes" where
  "fromLiteral rt l =
     (if datatype_uri l = xsd_dateTime then
        (let v = lit_value l;
             utcFullYear = parseInt10 (substring v 0 4);
             utcMonth = minus_number (parseInt10 (substring v 5 7)) (Finite 1);
             utcDate = parseInt10 (substring v 8 10);
             utcHours = parseInt10 (substring v 11 13);
             utcMinutes = parseInt10 (substring v 14 16);
             utcSeconds = parseInt10 (substring v 17 (indexOf v CHR ''Z''));
             date0 = Date_new rt (Finite 0);
             date1 = setUTCFullYear rt date0 utcFullYear;
             date2 = setUTCMonth rt date1 utcMonth;
             date3 = setUTCDate rt date2 utcDate;
             date4 = setUTCHours rt date3 utcHours;
             date5 = setUTCMinutes rt date4 utcMinutes;
             date6 = setUTCSeconds rt date5 utcSeconds
         in JDate date6)
      else if datatype_uri l = xsd_integer then JNumber (parseInt10 (lit_value l))
      else if datatype_uri l = xsd_decimal then JNumber (parseFloat (lit_value l))
      else JString (lit_value l))"

text \<open>
  \<^verbatim>\<open>new Literal(text, undefined, undefined)\<close>: no language, and rdflib's default datatype
  for a literal given none, \<^verbatim>\<open>xsd:string\<close>.
\<close>

definition asLiteral :: "'d runtime \<Rightarrow> 'd LiteralTypes \<Rightarrow> literal" where
  "asLiteral rt v =
     (case v of
        JDate d \<Rightarrow> Literal_fromDate rt d
      | JNumber n \<Rightarrow> Literal_fromNumber rt n
      | JString s \<Rightarrow> \<lparr>lit_value = s, lang = [], datatype_uri = xsd_string\<rparr>)"

subsection \<open>The heap of documents, metadata objects and subjects\<close>

text \<open>
  \<open>store\<close> is the rdflib graph behind \<^verbatim>\<open>getStore()\<close>, as the sequence of its
  statements. A document cell is the closure of \<^verbatim>\<open>instantiateDocument\<close>: its reference,
  its triples (the later revision; the earlier one keeps none) and the address of the
  metadata object it was given. A subject cell is the closure of \<^verbatim>\<open>initialiseSubject\<close>.
  The memo table of \<^verbatim>\<open>getSubject\<close> and the finders are not part of this model: \<open>save\<close>
  takes the list of subjects it is called with (by default the values of that table).
\<close>

record DocumentMetadata =
  aclRef :: "Reference option"
  webSocketRef :: "Reference option"
  existsOnPod :: "bool option"

record TripleDocument =
  documentRef :: Reference
  triples :: "Quad list"
  metadata :: nat

record TripleSubject =
  document :: nat
  subjectRef :: Reference
  pendingAdditions :: "Quad list"
  pendingDeletions :: "Quad list"

record world =
  store :: "Quad list"
  metadatas :: "DocumentMetadata list"
  documents :: "TripleDocument list"
  subjects :: "TripleSubject list"

definition emptyWorld :: world where
  "emptyWorld = \<lparr>store = [], metadatas = [], documents = [], subjects = []\<rparr>"

text \<open>JavaScript truthiness of an optional string, and of an optional boolean.\<close>

definition truthy :: "string option \<Rightarrow> bool" where
  "truthy v = (case v of None \<Rightarrow> False | Some s \<Rightarrow> s \<noteq> [])"

definition truthyBool :: "bool option \<Rightarrow> bool" where
  "truthyBool v = (case v of None \<Rightarrow> False | Some b \<Rightarrow> b)"

definition asRef :: "world \<Rightarrow> nat \<Rightarrow> Reference" where
  "asRef w d = documentRef (documents w ! d)"

definition getTriples :: "world \<Rightarrow> nat \<Rightarrow> Quad list" where
  "getTriples w d = triples (documents w ! d)"

definition getAclRef :: "world \<Rightarrow> nat \<Rightarrow> Reference option" where
  "getAclRef w d =
     (let m = metadatas w ! metadata (documents w ! d)
      in if truthy (aclRef m) then aclRef m else None)"

definition getWebSocketRef :: "world \<Rightarrow> nat \<Rightarrow> Reference option" where
  "getWebSocketRef w d =
     (let m = metadatas w ! metadata (documents w ! d)
      in if truthy (webSocketRef m) then webSocketRef m else None)"

subsection \<open>subject.ts: reading and staging\<close>

text \<open>
  Modelled from the spec: \<^verbatim>\<open>findObjectsInStore\<close> of \<^verbatim>\<open>getEntities.ts\<close>, which the
  sources call and do not contain. The spec's \<open>objectsOf\<close>: the objects of all
  statements matching subject, predicate and context, in source order.
\<close>

definition findObjectsInStore :: "Quad list \<Rightarrow> Reference \<Rightarrow> Reference \<Rightarrow> Reference \<Rightarrow> node list" where
  "findObjectsInStore sts subj pred doc =
     map object
       (filter (\<lambda>q. subject q = sym subj \<and> predicate q = sym pred \<and> graph q = sym doc) sts)"

definition initialiseSubject :: "world \<Rightarrow> nat \<Rightarrow> Reference \<Rightarrow> world \<times> nat" where
  "initialiseSubject w d ref =
     (w\<lparr>subjects := subjects w @
          [\<lparr>document = d, subjectRef = ref, pendingAdditions = [], pendingDeletions = []\<rparr>]\<rparr>,
      length (subjects w))"

definition getDocument :: "world \<Rightarrow> nat \<Rightarrow> nat" where
  "getDocument w s = document (subjects w ! s)"

definition get :: "world \<Rightarrow> nat \<Rightarrow> Reference \<Rightarrow> node list" where
  "get w s predicateNode =
     findObjectsInStore (store w) (subjectRef (subjects w ! s)) predicateNode
       (asRef w (getDocument w s))"

text \<open>What the type guards \<open>isLiteral\<close> and \<open>isNodeRef\<close> have narrowed a node to.\<close>

fun literal_of :: "node \<Rightarrow> literal" where
  "literal_of (Literal l) = l"

fun reference_of :: "node \<Rightarrow> Reference" where
  "reference_of (NamedNode iri) = iri"

definition getLiteral :: "'d runtime \<Rightarrow> world \<Rightarrow> nat \<Rightarrow> Reference \<Rightarrow> 'd LiteralTypes option" where
  "getLiteral rt w s predicateNode =
     (let objects = get w s predicateNode
      in case List.find isLiteral objects of
           None \<Rightarrow> None
         | Some firstLiteral \<Rightarrow> Some (fromLiteral rt (literal_of firstLiteral)))"

definition getAllLiterals :: "'d runtime \<Rightarrow> world \<Rightarrow> nat \<Rightarrow> Reference \<Rightarrow> 'd LiteralTypes list" where
  "getAllLiterals rt w s predicateNode =
     (let objects = get w s predicateNode;
          literals = filter isLiteral objects
      in map (\<lambda>l. fromLiteral rt (literal_of l)) literals)"

definition getNodeRef :: "world \<Rightarrow> nat \<Rightarrow> Reference \<Rightarrow> Reference option" where
  "getNodeRef w s predicateNode =
     (let objects = get w s predicateNode
      in case List.find isNodeRef objects of
           None \<Rightarrow> None
         | Some firstNodeRef \<Rightarrow> Some (reference_of firstNodeRef))"

definition getAllNodeRefs :: "world \<Rightarrow> nat \<Rightarrow> Reference \<Rightarrow> Reference list" where
  "getAllNodeRefs w s predicateNode =
     (let objects = get w s predicateNode;
          nodeRefs = filter isNodeRef objects
      in map reference_of nodeRefs)"

definition getType :: "world \<Rightarrow> nat \<Rightarrow> Reference option" where
  "getType w s = getNodeRef w s rdf_type"

definition getStatements :: "world \<Rightarrow> nat \<Rightarrow> Quad list" where
  "getStatements w s =
     filter (\<lambda>q. subject q = sym (subjectRef (subjects w ! s)) \<and>
                 graph q = sym (asRef w (getDocument w s))) (store w)"

definition asNodeRef :: "world \<Rightarrow> nat \<Rightarrow> Reference" where
  "asNodeRef w s = subjectRef (subjects w ! s)"

definition pushAddition :: "world \<Rightarrow> nat \<Rightarrow> Quad \<Rightarrow> world" where
  "pushAddition w s q =
     w\<lparr>subjects := (subjects w)
          [s := (subjects w ! s)\<lparr>pendingAdditions := pendingAdditions (subjects w ! s) @ [q]\<rparr>]\<rparr>"

definition addLiteral :: "'d runtime \<Rightarrow> world \<Rightarrow> nat \<Rightarrow> Reference \<Rightarrow> 'd LiteralTypes \<Rightarrow> world" where
  "addLiteral rt w s predicateRef lit =
     pushAddition w s
       (st (sym (asNodeRef w s)) (sym predicateRef) (Literal (asLiteral rt lit))
           (sym (asRef w (getDocument w s))))"

definition addNodeRef :: "world \<Rightarrow> nat \<Rightarrow> Reference \<Rightarrow> Reference \<Rightarrow> world" where
  "addNodeRef w s predicateRef nodeRef =
     pushAddition w s
       (st (sym (asNodeRef w s)) (sym predicateRef) (sym nodeRef)
           (sym (asRef w (getDocument w s))))"

text \<open>The pair is (deletions, additions); the later revision calls it \<^verbatim>\<open>getPendingTriples\<close>.\<close>

definition getPendingStatements :: "world \<Rightarrow> nat \<Rightarrow> Quad list \<times> Quad list" where
  "getPendingStatements w s =
     (pendingDeletions (subjects w ! s), pendingAdditions (subjects w ! s))"

definition onSave :: "world \<Rightarrow> nat \<Rightarrow> world" where
  "onSave w s =
     w\<lparr>subjects := (subjects w)
          [s := (subjects w ! s)\<lparr>pendingDeletions := [], pendingAdditions := []\<rparr>]\<rparr>"

subsection \<open>The collaborators of a document\<close>

datatype error = Error string | TypeError string

text \<open>The two response headers a document reads, as \<^verbatim>\<open>headers.get\<close> returns them.\<close>

record Response =
  header_Link :: "string option"
  header_Updates_Via :: "string option"

text \<open>
  \<open>create\<close> and \<open>update\<close> are the transport (a rejection is \<open>Inl\<close>). \<open>LinkHeader\<close> is
  the link header library when the build has it: from a header to the targets of its
  links with \<^verbatim>\<open>rel="acl"\<close>. \<open>URL_href\<close> is \<^verbatim>\<open>new URL(uri, base).href\<close>, which throws
  on what it cannot parse.
\<close>

record collaborators =
  create :: "Reference \<Rightarrow> Quad list \<Rightarrow> error + Response"
  update :: "Reference \<Rightarrow> Quad list \<Rightarrow> Quad list \<Rightarrow> error + unit"
  LinkHeader :: "(string \<Rightarrow> error + string list) option"
  URL_href :: "string \<Rightarrow> Reference \<Rightarrow> error + Reference"

definition extractAclRef :: "collaborators \<Rightarrow> Response \<Rightarrow> Reference \<Rightarrow> error + Reference option" where
  "extractAclRef co response ref =
     (case (header_Link response, LinkHeader co) of
        (Some linkHeader, Some parse) \<Rightarrow>
          if linkHeader = [] then Inr None
          else
            (case parse linkHeader of
               Inl e \<Rightarrow> Inl e
             | Inr aclLinks \<Rightarrow>
                 if length aclLinks = 1 then
                   (case URL_href co (aclLinks ! 0) ref of
                      Inl e \<Rightarrow> Inl e
                    | Inr href \<Rightarrow> Inr (Some href))
                 else Inr None)
      | _ \<Rightarrow> Inr None)"

subsection \<open>document.ts, the later revision: a new document per save\<close>

definition instantiateDocument :: "world \<Rightarrow> Reference \<Rightarrow> Quad list \<Rightarrow> nat \<Rightarrow> world \<times> nat" where
  "instantiateDocument w ref ts md =
     (w\<lparr>documents := documents w @ [\<lparr>documentRef = ref, triples = ts, metadata = md\<rparr>]\<rparr>,
      length (documents w))"

definition createDocument :: "world \<Rightarrow> Reference \<Rightarrow> world \<times> nat" where
  "createDocument w ref =
     instantiateDocument
       (w\<lparr>metadatas := metadatas w @
            [\<lparr>aclRef = None, webSocketRef = None, existsOnPod = Some False\<rparr>]\<rparr>)
       ref [] (length (metadatas w))"

definition relevantSubjects :: "world \<Rightarrow> Reference \<Rightarrow> nat list \<Rightarrow> nat list" where
  "relevantSubjects w ref subjs = filter (\<lambda>s. asRef w (getDocument w s) = ref) subjs"

text \<open>The \<^verbatim>\<open>reduce\<close> of \<open>save\<close>: (all deletions, all additions) of the subjects, in order.\<close>

definition collectPending :: "world \<Rightarrow> nat list \<Rightarrow> Quad list \<times> Quad list" where
  "collectPending w subjs =
     foldl (\<lambda>(deletionsSoFar, additionsSoFar) s.
              case getPendingStatements w s of
                (deletions, additions) \<Rightarrow> (deletionsSoFar @ deletions, additionsSoFar @ additions))
       ([], []) subjs"

fun findIndex :: "('a \<Rightarrow> bool) \<Rightarrow> 'a list \<Rightarrow> int" where
  "findIndex P [] = - 1"
| "findIndex P (x # xs) =
     (if P x then 0 else (let i = findIndex P xs in if i = - 1 then - 1 else i + 1))"

definition setMetadata :: "world \<Rightarrow> nat \<Rightarrow> (DocumentMetadata \<Rightarrow> DocumentMetadata) \<Rightarrow> world" where
  "setMetadata w md f = w\<lparr>metadatas := (metadatas w)[md := f (metadatas w ! md)]\<rparr>"

definition save :: "collaborators \<Rightarrow> world \<Rightarrow> nat \<Rightarrow> nat list \<Rightarrow> world \<times> (error + nat)" where
  "save co w d subjs =
     (let ref = documentRef (documents w ! d);
          md = metadata (documents w ! d);
          relevant = relevantSubjects w ref subjs;
          (allDeletions, allAdditions) = collectPending w relevant;
          newTriples =
            filter (\<lambda>tripleToDelete.
                      findIndex (\<lambda>triple. equals triple tripleToDelete) allDeletions = - 1)
              (triples (documents w ! d) @ allAdditions)
      in if \<not> truthyBool (existsOnPod (metadatas w ! md)) then
           (case create co ref allAdditions of
              Inl e \<Rightarrow> (w, Inl e)
            | Inr response \<Rightarrow>
                (case extractAclRef co response ref of
                   Inl e \<Rightarrow> (w, Inl e)
                 | Inr acl \<Rightarrow>
                     (let w1 = (if truthy acl then setMetadata w md (\<lambda>m. m\<lparr>aclRef := acl\<rparr>) else w);
                          webSocket = header_Updates_Via response;
                          w2 = (if truthy webSocket
                                then setMetadata w1 md (\<lambda>m. m\<lparr>webSocketRef := webSocket\<rparr>) else w1);
                          w3 = setMetadata w2 md (\<lambda>m. m\<lparr>existsOnPod := Some True\<rparr>);
                          (w4, d') = instantiateDocument w3 ref newTriples md
                      in (w4, Inr d'))))
         else
           (case update co ref allDeletions allAdditions of
              Inl e \<Rightarrow> (w, Inl e)
            | Inr _ \<Rightarrow>
                (let (w1, d') = instantiateDocument w ref newTriples md in (w1, Inr d'))))"

subsection \<open>store.ts and document.ts, the earlier revision: saving through the rdflib store\<close>

text \<open>
  What rdflib and the platform provide to this revision: \<open>URL_parse\<close> is \<^verbatim>\<open>new URL(uri)\<close>
  (it throws on what it cannot parse), \<open>updater_update\<close> is the update manager's
  \<^verbatim>\<open>update\<close>: from the statements to delete, the statements to add and the store to the
  callback's (success, errorBody) and the store it leaves.
\<close>

record URL =
  origin :: string
  pathname :: string
  search :: string

record rdflib =
  URL_parse :: "string \<Rightarrow> error + URL"
  updater_update :: "Quad list \<Rightarrow> Quad list \<Rightarrow> Quad list \<Rightarrow> (bool \<times> string) \<times> Quad list"

text \<open>\<^verbatim>\<open>update\<close> of store.ts: resolves on success, rejects with the error body otherwise.\<close>

definition update_v1 :: "rdflib \<Rightarrow> Quad list \<Rightarrow> Quad list \<Rightarrow> Quad list \<Rightarrow> (error + unit) \<times> Quad list" where
  "update_v1 lib sts statementsToDelete statementsToAdd =
     (case updater_update lib statementsToDelete statementsToAdd sts of
        ((success, errorBody), sts') \<Rightarrow>
          (if success then Inr () else Inl (Error errorBody), sts'))"

text \<open>This revision calls the link header library without asking whether it is there.\<close>

definition extractAclRef_v1 :: "collaborators \<Rightarrow> Response \<Rightarrow> Reference \<Rightarrow> error + Reference option" where
  "extractAclRef_v1 co response ref =
     (case header_Link response of
        None \<Rightarrow> Inr None
      | Some linkHeader \<Rightarrow>
          if linkHeader = [] then Inr None
          else
            (case LinkHeader co of
               None \<Rightarrow> Inl (TypeError ''LinkHeader is undefined'')
             | Some parse \<Rightarrow>
                 (case parse linkHeader of
                    Inl e \<Rightarrow> Inl e
                  | Inr aclLinks \<Rightarrow>
                      if length aclLinks = 1 then
                        (case URL_href co (aclLinks ! 0) ref of
                           Inl e \<Rightarrow> Inl e
                         | Inr href \<Rightarrow> Inr (Some href))
                      else Inr None)))"

text \<open>
  \<^verbatim>\<open>instantiateDocument(uri, metadata)\<close>: the document's reference is the URI without its
  fragment, put together from the parsed URL.
\<close>

definition instantiateDocument_v1 :: "rdflib \<Rightarrow> world \<Rightarrow> Reference \<Rightarrow> nat \<Rightarrow> world \<times> (error + nat)" where
  "instantiateDocument_v1 lib w uri md =
     (case URL_parse lib uri of
        Inl e \<Rightarrow> (w, Inl e)
      | Inr docUrl \<Rightarrow>
          (w\<lparr>documents := documents w @
               [\<lparr>documentRef = origin docUrl @ pathname docUrl @ search docUrl,
                 triples = [], metadata = md\<rparr>]\<rparr>,
           Inr (length (documents w))))"

definition createDocument_v1 :: "rdflib \<Rightarrow> world \<Rightarrow> Reference \<Rightarrow> world \<times> (error + nat)" where
  "createDocument_v1 lib w ref =
     instantiateDocument_v1 lib
       (w\<lparr>metadatas := metadatas w @
            [\<lparr>aclRef = None, webSocketRef = None, existsOnPod = Some False\<rparr>]\<rparr>)
       ref (length (metadatas w))"

text \<open>
  \<open>save\<close> of this revision resolves to the subjects it persisted, after telling each of
  them (\<open>onSave\<close>). Its \<open>create\<close> is the transport parameter, as in the later revision.
\<close>

definition save_v1 :: "collaborators \<Rightarrow> rdflib \<Rightarrow> world \<Rightarrow> nat \<Rightarrow> nat list \<Rightarrow> world \<times> (error + nat list)" where
  "save_v1 co lib w d subjs =
     (let ref = documentRef (documents w ! d);
          md = metadata (documents w ! d);
          relevant = relevantSubjects w ref subjs;
          (allDeletions, allAdditions) = collectPending w relevant
      in if \<not> truthyBool (existsOnPod (metadatas w ! md)) then
           (case create co ref allAdditions of
              Inl e \<Rightarrow> (w, Inl e)
            | Inr response \<Rightarrow>
                (case extractAclRef_v1 co response ref of
                   Inl e \<Rightarrow> (w, Inl e)
                 | Inr acl \<Rightarrow>
                     (let w1 = (if truthy acl then setMetadata w md (\<lambda>m. m\<lparr>aclRef := acl\<rparr>) else w);
                          w2 = setMetadata w1 md (\<lambda>m. m\<lparr>existsOnPod := Some True\<rparr>)
                      in (foldl onSave w2 relevant, Inr relevant))))
         else
           (case update_v1 lib (store w) allDeletions allAdditions of
              (Inl e, sts') \<Rightarrow> (w\<lparr>store := sts'\<rparr>, Inl e)
            | (Inr _, sts') \<Rightarrow> (foldl onSave (w\<lparr>store := sts'\<rparr>) relevant, Inr relevant)))"

subsection \<open>The aggregate of a save, as the specification words it\<close>

text \<open>
  Step 2 of the specified save: the deletions, and the additions, of the subjects that
  belong to the document, concatenated in the order of the subjects.
\<close>

definition allDeletions :: "world \<Rightarrow> nat \<Rightarrow> nat list \<Rightarrow> Quad list" where
  "allDeletions w d subjs =
     concat (map (\<lambda>s. pendingDeletions (subjects w ! s)) (relevantSubjects w (asRef w d) subjs))"

definition allAdditions :: "world \<Rightarrow> nat \<Rightarrow> nat list \<Rightarrow> Quad list" where
  "allAdditions w d subjs =
     concat (map (\<lambda>s. pendingAdditions (subjects w ! s)) (relevantSubjects w (asRef w d) subjs))"

text \<open>
  Step 4 as the specification words it: every deletion takes away at most one
  occurrence of a statement equal to it, the others keep their order.
\<close>

definition minusOnce :: "Quad list \<Rightarrow> Quad list \<Rightarrow> Quad list" where
  "minusOnce sts deletions = fold remove1 deletions sts"

text \<open>
  The statements of the document a save returns, as the program computes them: the old
  statements followed by the additions, without every statement that equals a deletion.
\<close>

definition triplesAfterSave :: "world \<Rightarrow> nat \<Rightarrow> nat list \<Rightarrow> Quad list" where
  "triplesAfterSave w d subjs =
     filter (\<lambda>t. t \<notin> set (allDeletions w d subjs)) (getTriples w d @ allAdditions w d subjs)"

subsection \<open>Lexical forms that are no number\<close>

text \<open>
  A lexical form is not parsable as an integer when, after white space and a sign, no
  decimal digit follows; as a decimal when what follows is neither \<^verbatim>\<open>Infinity\<close>, nor a
  digit, nor a point before a digit.
\<close>

definition noIntegerPrefix :: "string \<Rightarrow> bool" where
  "noIntegerPrefix v \<longleftrightarrow>
     takeWhile isDecimalDigit (snd (stripSign (dropWhile isStrWhiteSpaceChar v))) = []"

definition noDecimalPrefix :: "string \<Rightarrow> bool" where
  "noDecimalPrefix v \<longleftrightarrow>
     (let u = snd (stripSign (dropWhile isStrWhiteSpaceChar v))
      in take 8 u \<noteq> ''Infinity'' \<and> takeWhile isDecimalDigit u = [] \<and>
         (take 1 u = ''.'' \<longrightarrow> takeWhile isDecimalDigit (drop 1 u) = []))"

subsection \<open>Sample data\<close>

text \<open>
  The terms of the repository's subject tests, a runtime whose dates carry no
  information (for the code paths that touch no date), and transports that accept or
  reject every request.
\<close>

definition mockDocument :: Reference where
  "mockDocument = ''https://document.com/''"

definition mockSubject :: Reference where
  "mockSubject = ''https://subject1.com/''"

definition mockPredicate :: Reference where
  "mockPredicate = ''https://mock-predicate.com/''"

definition mockObjectNode :: Reference where
  "mockObjectNode = ''https://mock-object.com/''"

definition mockObjectNode2 :: Reference where
  "mockObjectNode2 = ''https://mock-object-2.com/''"

text \<open>A string with a language tag (its datatype is then \<^verbatim>\<open>rdf:langString\<close>).\<close>

definition mockObjectLiteral :: literal where
  "mockObjectLiteral =
     \<lparr>lit_value = ''Arbitrary literal value'', lang = ''en'', datatype_uri = rdf_langString\<rparr>"

text \<open>A literal of a datatype that is none of the four the codec knows.\<close>

definition mockObjectLiteral2 :: literal where
  "mockObjectLiteral2 =
     \<lparr>lit_value = ''Another arbitrary literal value'', lang = [], datatype_uri = ''https://data.type/''\<rparr>"

definition mockStatementNode :: Quad where
  "mockStatementNode = st (sym mockSubject) (sym mockPredicate) (sym mockObjectNode) (sym mockDocument)"

definition mockStatementLiteral :: Quad where
  "mockStatementLiteral =
     st (sym mockSubject) (sym mockPredicate) (Literal mockObjectLiteral) (sym mockDocument)"

definition mockStatementLiteral2 :: Quad where
  "mockStatementLiteral2 =
     st (sym mockSubject) (sym mockPredicate) (Literal mockObjectLiteral2) (sym mockDocument)"

definition mockStatementNode2 :: Quad where
  "mockStatementNode2 = st (sym mockSubject) (sym mockPredicate) (sym mockObjectNode2) (sym mockDocument)"

definition plainRuntime :: "unit runtime" where
  "plainRuntime =
     \<lparr>Date_new = (\<lambda>_. ()), setUTCFullYear = (\<lambda>_ _. ()), setUTCMonth = (\<lambda>_ _. ()),
      setUTCDate = (\<lambda>_ _. ()), setUTCHours = (\<lambda>_ _. ()), setUTCMinutes = (\<lambda>_ _. ()),
      setUTCSeconds = (\<lambda>_ _. ()),
      Literal_fromDate = (\<lambda>_. \<lparr>lit_value = [], lang = [], datatype_uri = xsd_dateTime\<rparr>),
      Literal_fromNumber = (\<lambda>_. \<lparr>lit_value = [], lang = [], datatype_uri = xsd_decimal\<rparr>)\<rparr>"

text \<open>
  A server that accepts every request; its answer to a creation names an ACL and a
  live update channel.
\<close>

definition acceptingServer :: collaborators where
  "acceptingServer =
     \<lparr>create = (\<lambda>_ _. Inr \<lparr>header_Link = Some ''<.acl>; rel=acl'',
                              header_Updates_Via = Some ''wss://document.com/''\<rparr>),
      update = (\<lambda>_ _ _. Inr ()),
      LinkHeader = Some (\<lambda>_. Inr [''.acl'']),
      URL_href = (\<lambda>_ _. Inr ''https://document.com/.acl'')\<rparr>"

definition rejectingServer :: collaborators where
  "rejectingServer =
     \<lparr>create = (\<lambda>_ _. Inl (Error ''412 Precondition Failed'')),
      update = (\<lambda>_ _ _. Inl (Error ''403 Forbidden'')),
      LinkHeader = None,
      URL_href = (\<lambda>uri _. Inr uri)\<rparr>"

text \<open>The store of the tests, cut down to one subject: a reference, then two literals.\<close>

definition readWorld :: world where
  "readWorld =
     \<lparr>store = [mockStatementNode, mockStatementLiteral, mockStatementLiteral2],
      metadatas = [\<lparr>aclRef = None, webSocketRef = None, existsOnPod = Some True\<rparr>],
      documents = [\<lparr>documentRef = mockDocument, triples = [], metadata = 0\<rparr>],
      subjects = [\<lparr>document = 0, subjectRef = mockSubject,
                   pendingAdditions = [], pendingDeletions = []\<rparr>]\<rparr>"

text \<open>
  A saved document that holds one statement, and a subject that has staged the removal
  of that statement and its addition (what replacing a value by the same value stages).
\<close>

definition resetWorld :: world where
  "resetWorld =
     \<lparr>store = [],
      metadatas = [\<lparr>aclRef = None, webSocketRef = None, existsOnPod = Some True\<rparr>],
      documents = [\<lparr>documentRef = mockDocument, triples = [mockStatementNode], metadata = 0\<rparr>],
      subjects = [\<lparr>document = 0, subjectRef = mockSubject,
                   pendingAdditions = [mockStatementNode], pendingDeletions = [mockStatementNode]\<rparr>]\<rparr>"

text \<open>
  A saved document of two statements, and a subject that has staged the removal of the
  first and the addition of a third.
\<close>

definition editWorld :: world where
  "editWorld =
     \<lparr>store = [],
      metadatas = [\<lparr>aclRef = None, webSocketRef = None, existsOnPod = Some True\<rparr>],
      documents = [\<lparr>documentRef = mockDocument,
                    triples = [mockStatementNode, mockStatementLiteral], metadata = 0\<rparr>],
      subjects = [\<lparr>document = 0, subjectRef = mockSubject,
                   pendingAdditions = [mockStatementNode2], pendingDeletions = [mockStatementNode]\<rparr>]\<rparr>"

text \<open>A store whose literals claim to be an integer and a decimal and are neither.\<close>

definition nanWorld :: world where
  "nanWorld =
     \<lparr>store = [st (sym mockSubject) (sym mockPredicate)
                 (Literal \<lparr>lit_value = ''abc'', lang = [], datatype_uri = xsd_integer\<rparr>) (sym mockDocument),
               st (sym mockSubject) (sym mockPredicate)
                 (Literal \<lparr>lit_value = ''.'', lang = [], datatype_uri = xsd_decimal\<rparr>) (sym mockDocument)],
      metadatas = [\<lparr>aclRef = None, webSocketRef = None, existsOnPod = Some True\<rparr>],
      documents = [\<lparr>documentRef = mockDocument, triples = [], metadata = 0\<rparr>],
      subjects = [\<lparr>document = 0, subjectRef = mockSubject,
                   pendingAdditions = [], pendingDeletions = []\<rparr>]\<rparr>"

text \<open>A stand-in for the platform's URL parser: everything before the fragment is the origin.\<close>

definition fragmentParser :: rdflib where
  "fragmentParser =
     \<lparr>URL_parse = (\<lambda>uri. Inr \<lparr>origin = takeWhile (\<lambda>c. c \<noteq> CHR ''#'') uri, pathname = [], search = []\<rparr>),
      updater_update = (\<lambda>_ _ sts. ((True, []), sts))\<rparr>"

section \<open>Properties\<close>

subsection \<open>Equality of statements, and the aggregate of a save\<close>

lemma node_equals_iff: "node_equals a b \<longleftrightarrow> a = b"
  by (cases a; cases b) auto

lemma equals_iff: "equals a b \<longleftrightarrow> a = b"
  by (cases a; cases b) (simp add: equals_def node_equals_iff)

lemma findIndex_ge: "- 1 \<le> findIndex P xs"
  by (induction xs) (auto simp: Let_def)

lemma findIndex_none: "findIndex P xs = - 1 \<longleftrightarrow> (\<forall>x\<in>set xs. \<not> P x)"
proof (induction xs)
  case Nil
  show ?case by simp
next
  case (Cons x xs)
  have "findIndex P xs + 1 \<noteq> - 1" using findIndex_ge [of P xs] by arith
  with Cons show ?case by (auto simp: Let_def)
qed

lemma findIndex_equals: "(findIndex (\<lambda>triple. equals triple t) dels = - 1) \<longleftrightarrow> t \<notin> set dels"
  by (auto simp: findIndex_none equals_iff)

text \<open>The \<^verbatim>\<open>reduce\<close> over the subjects is the concatenation of their buffers.\<close>

lemma collectPending_foldl:
  "foldl (\<lambda>(deletionsSoFar, additionsSoFar) s.
              case getPendingStatements w s of
                (deletions, additions) \<Rightarrow> (deletionsSoFar @ deletions, additionsSoFar @ additions))
       (ds, as) subjs =
   (ds @ concat (map (\<lambda>s. pendingDeletions (subjects w ! s)) subjs),
    as @ concat (map (\<lambda>s. pendingAdditions (subjects w ! s)) subjs))"
  by (induction subjs arbitrary: ds as) (simp_all add: getPendingStatements_def)

lemma collectPending_eq:
  "collectPending w (relevantSubjects w (asRef w d) subjs) = (allDeletions w d subjs, allAdditions w d subjs)"
  by (simp add: collectPending_def collectPending_foldl allDeletions_def allAdditions_def)

text \<open>
  The difference the specification words is the difference of multisets, and what it
  leaves is in the order it had.
\<close>

lemma mset_minusOnce: "mset (minusOnce sts dels) = mset sts - mset dels"
  unfolding minusOnce_def
  by (induction dels arbitrary: sts) simp_all

lemma subseq_remove1: "subseq (remove1 x xs) xs"
  by (induction xs) auto

lemma subseq_minusOnce: "subseq (minusOnce sts dels) sts"
  unfolding minusOnce_def
proof (induction dels arbitrary: sts)
  case Nil
  show ?case by simp
next
  case (Cons d dels)
  have "subseq (fold remove1 dels (remove1 d sts)) (remove1 d sts)" by (rule Cons.IH)
  then have "subseq (fold remove1 dels (remove1 d sts)) sts"
    using subseq_remove1 [of d sts] by (rule subseq_order.trans)
  then show ?case by simp
qed

subsection \<open>The later save, step by step\<close>

lemma save_unfold:
  "save co w d subjs =
     (if \<not> truthyBool (existsOnPod (metadatas w ! metadata (documents w ! d))) then
        (case create co (asRef w d) (allAdditions w d subjs) of
           Inl e \<Rightarrow> (w, Inl e)
         | Inr response \<Rightarrow>
            (case extractAclRef co response (asRef w d) of
               Inl e \<Rightarrow> (w, Inl e)
             | Inr acl \<Rightarrow>
                (let md = metadata (documents w ! d);
                     w1 = (if truthy acl then setMetadata w md (\<lambda>m. m\<lparr>aclRef := acl\<rparr>) else w);
                     webSocket = header_Updates_Via response;
                     w2 = (if truthy webSocket
                           then setMetadata w1 md (\<lambda>m. m\<lparr>webSocketRef := webSocket\<rparr>) else w1);
                     w3 = setMetadata w2 md (\<lambda>m. m\<lparr>existsOnPod := Some True\<rparr>)
                 in (fst (instantiateDocument w3 (asRef w d) (triplesAfterSave w d subjs) md),
                     Inr (snd (instantiateDocument w3 (asRef w d) (triplesAfterSave w d subjs) md))))))
      else
        (case update co (asRef w d) (allDeletions w d subjs) (allAdditions w d subjs) of
           Inl e \<Rightarrow> (w, Inl e)
         | Inr _ \<Rightarrow>
            (fst (instantiateDocument w (asRef w d) (triplesAfterSave w d subjs) (metadata (documents w ! d))),
             Inr (snd (instantiateDocument w (asRef w d) (triplesAfterSave w d subjs)
                        (metadata (documents w ! d)))))))"
proof -
  have c: "collectPending w (relevantSubjects w (documentRef (documents w ! d)) subjs)
      = (allDeletions w d subjs, allAdditions w d subjs)"
    using collectPending_eq [of w d subjs] by (simp add: asRef_def)
  have f: "filter (\<lambda>tripleToDelete.
             findIndex (\<lambda>triple. equals triple tripleToDelete) (allDeletions w d subjs) = - 1)
             (triples (documents w ! d) @ allAdditions w d subjs) = triplesAfterSave w d subjs"
    by (simp add: triplesAfterSave_def findIndex_equals getTriples_def)
  show ?thesis
    unfolding save_def Let_def c prod.case f
    by (simp add: asRef_def split: sum.splits prod.splits)
qed

lemma documents_setMetadata [simp]: "documents (setMetadata w md f) = documents w"
  by (simp add: setMetadata_def)

lemma subjects_setMetadata [simp]: "subjects (setMetadata w md f) = subjects w"
  by (simp add: setMetadata_def)

lemma store_setMetadata [simp]: "store (setMetadata w md f) = store w"
  by (simp add: setMetadata_def)

text \<open>
  A save that resolves has appended one document cell: the reference and the metadata
  object of the saved document, and the new triples. Nothing else of the documents, the
  subjects or the store has changed.
\<close>

lemma save_success:
  assumes "save co w d subjs = (w', Inr d')"
  shows "d' = length (documents w) \<and>
         documents w' = documents w @
           [\<lparr>documentRef = asRef w d, triples = triplesAfterSave w d subjs,
             metadata = metadata (documents w ! d)\<rparr>] \<and>
         subjects w' = subjects w \<and> store w' = store w"
  using assms unfolding save_unfold
  by (auto simp: instantiateDocument_def Let_def split: if_splits sum.splits)

lemma save_subjects_unchanged: "subjects (fst (save co w d subjs)) = subjects w"
  unfolding save_unfold
  by (auto simp: instantiateDocument_def Let_def split: if_splits sum.splits)

lemma save_documents_unchanged:
  assumes "d0 < length (documents w)"
  shows "documents (fst (save co w d subjs)) ! d0 = documents w ! d0"
  using assms unfolding save_unfold
  by (auto simp: instantiateDocument_def Let_def nth_append split: if_splits sum.splits)

lemmas sample_defs = resetWorld_def editWorld_def acceptingServer_def rejectingServer_def
  mockStatementNode_def mockStatementNode2_def mockStatementLiteral_def mockStatementLiteral2_def
  mockObjectLiteral_def mockObjectLiteral2_def mockDocument_def mockSubject_def mockPredicate_def
  mockObjectNode_def mockObjectNode2_def rdf_langString_def st_def sym_def

lemmas run_defs = save_unfold triplesAfterSave_def allDeletions_def allAdditions_def
  relevantSubjects_def asRef_def getDocument_def getTriples_def truthy_def truthyBool_def
  extractAclRef_def instantiateDocument_def setMetadata_def Let_def minusOnce_def
  createDocument_def emptyWorld_def initialiseSubject_def getWebSocketRef_def getAclRef_def

subsection \<open>The statements of the saved document\<close>

text \<open>
  C1, as the program has it. When a save resolves, the statements of the document it
  returns are the statements of the saved document followed by all staged additions,
  without every statement that equals a staged deletion: a deletion takes away all the
  occurrences of its statement, those just added among them. The statements that stay
  keep their order.
\<close>

theorem save_newTriples:
  assumes "save co w d subjs = (w', Inr d')"
  shows "getTriples w' d' =
         filter (\<lambda>t. t \<notin> set (allDeletions w d subjs)) (getTriples w d @ allAdditions w d subjs)"
  using save_success [OF assms] by (simp add: getTriples_def triplesAfterSave_def)

text \<open>
  On a document of two statements, removing the first and adding a third leaves the
  second and the third.
\<close>

theorem save_newTriples_witness:
  "save acceptingServer editWorld 0 [0] = (fst (save acceptingServer editWorld 0 [0]), Inr 1) \<and>
   getTriples (fst (save acceptingServer editWorld 0 [0])) 1 = [mockStatementLiteral, mockStatementNode2]"
proof -
  have r: "save acceptingServer editWorld 0 [0] = (fst (save acceptingServer editWorld 0 [0]), Inr 1)"
    by (simp add: run_defs sample_defs prod_eq_iff)
  have f: "filter (\<lambda>t. t \<notin> set (allDeletions editWorld 0 [0]))
       (getTriples editWorld 0 @ allAdditions editWorld 0 [0]) = [mockStatementLiteral, mockStatementNode2]"
    by (simp add: run_defs sample_defs)
  show ?thesis
    using save_newTriples [OF r] r f by simp
qed

text \<open>
  C1 as stated fails. The document holds one statement; a subject has staged the
  removal of that statement and its addition. The save resolves to a document with no
  statement, where one deletion taking one occurrence from the two would leave one.
\<close>

theorem save_multiset_counterexample:
  "snd (save acceptingServer resetWorld 0 [0]) = Inr 1 \<and>
   getTriples (fst (save acceptingServer resetWorld 0 [0])) 1 = [] \<and>
   minusOnce (getTriples resetWorld 0 @ allAdditions resetWorld 0 [0]) (allDeletions resetWorld 0 [0])
     = [mockStatementNode] \<and>
   getTriples (fst (save acceptingServer resetWorld 0 [0])) 1 \<noteq>
     minusOnce (getTriples resetWorld 0 @ allAdditions resetWorld 0 [0]) (allDeletions resetWorld 0 [0]) \<and>
   mset (getTriples (fst (save acceptingServer resetWorld 0 [0])) 1) \<noteq>
     mset (getTriples resetWorld 0 @ allAdditions resetWorld 0 [0]) - mset (allDeletions resetWorld 0 [0])"
proof -
  have c: "getTriples (fst (save acceptingServer resetWorld 0 [0])) 1 = []"
    by (simp add: run_defs sample_defs)
  have m: "minusOnce (getTriples resetWorld 0 @ allAdditions resetWorld 0 [0]) (allDeletions resetWorld 0 [0])
      = [mockStatementNode]"
    by (simp add: run_defs sample_defs)
  have r: "snd (save acceptingServer resetWorld 0 [0]) = Inr 1"
    by (simp add: run_defs sample_defs)
  have "mset (getTriples resetWorld 0 @ allAdditions resetWorld 0 [0]) - mset (allDeletions resetWorld 0 [0])
      = mset [mockStatementNode]"
    unfolding mset_minusOnce [symmetric] m ..
  with c m r show ?thesis by simp
qed

subsection \<open>A save whose transport fails\<close>

text \<open>
  C4. When the request of a save is rejected (the creation of a document that is not
  on the Pod yet, the update of one that is), the save hands the error on and leaves the
  world as it was: no buffer of any subject is cleared, no document is added, the
  document and its metadata are what they were. A later save on what is left behaves as
  it would have on the state before.
\<close>

theorem save_transport_failure:
  assumes "(\<not> truthyBool (existsOnPod (metadatas w ! metadata (documents w ! d))) \<and>
              create co (asRef w d) (allAdditions w d subjs) = Inl e) \<or>
           (truthyBool (existsOnPod (metadatas w ! metadata (documents w ! d))) \<and>
              update co (asRef w d) (allDeletions w d subjs) (allAdditions w d subjs) = Inl e)"
  shows "save co w d subjs = (w, Inl e) \<and>
         (\<forall>co' subjs'. save co' (fst (save co w d subjs)) d subjs' = save co' w d subjs')"
proof -
  have "save co w d subjs = (w, Inl e)"
    using assms unfolding save_unfold by auto
  then show ?thesis by simp
qed

text \<open>A rejected update leaves the world untouched, and the same save then goes through.\<close>

theorem save_transport_failure_witness:
  "save rejectingServer resetWorld 0 [0] = (resetWorld, Inl (Error ''403 Forbidden'')) \<and>
   snd (save acceptingServer (fst (save rejectingServer resetWorld 0 [0])) 0 [0]) = Inr 1"
proof -
  have h: "truthyBool (existsOnPod (metadatas resetWorld ! metadata (documents resetWorld ! 0))) \<and>
      update rejectingServer (asRef resetWorld 0) (allDeletions resetWorld 0 [0]) (allAdditions resetWorld 0 [0])
        = Inl (Error ''403 Forbidden'')"
    by (simp add: resetWorld_def rejectingServer_def truthyBool_def)
  have r: "save rejectingServer resetWorld 0 [0] = (resetWorld, Inl (Error ''403 Forbidden''))"
    using save_transport_failure [of resetWorld 0 rejectingServer "[0]" "Error ''403 Forbidden''"] h
    by blast
  have "snd (save acceptingServer resetWorld 0 [0]) = Inr 1"
    by (simp add: run_defs sample_defs)
  with r show ?thesis by simp
qed

subsection \<open>Reading literals\<close>

lemma find_isLiteral_first:
  "\<forall>x\<in>set pre. \<not> isLiteral x \<Longrightarrow> List.find isLiteral (pre @ Literal l # post) = Some (Literal l)"
  by (induction pre) auto

lemma getLiteral_first:
  assumes "get w s p = pre @ Literal l # post" and "\<forall>x\<in>set pre. \<not> isLiteral x"
  shows "getLiteral rt w s p = Some (fromLiteral rt l)"
  using assms by (simp add: getLiteral_def find_isLiteral_first)

lemma getLiteral_None_iff:
  "getLiteral rt w s p = None \<longleftrightarrow> (\<forall>x\<in>set (get w s p). \<not> isLiteral x)"
proof (cases "List.find isLiteral (get w s p)")
  case None
  then have "\<forall>y\<in>set (get w s p). \<not> isLiteral y" by (simp add: find_None_iff)
  with None show ?thesis by (simp add: getLiteral_def)
next
  case (Some x)
  then have "\<exists>y\<in>set (get w s p). isLiteral y" by (auto simp: find_Some_iff)
  with Some show ?thesis by (simp add: getLiteral_def)
qed

lemma getAllLiterals_member:
  assumes "Literal l \<in> set (get w s p)"
  shows "fromLiteral rt l \<in> set (getAllLiterals rt w s p)"
proof -
  have "Literal l \<in> set (filter isLiteral (get w s p))" using assms by simp
  then have "fromLiteral rt (literal_of (Literal l)) \<in>
      (\<lambda>x. fromLiteral rt (literal_of x)) ` set (filter isLiteral (get w s p))"
    by (rule imageI)
  then show ?thesis by (simp add: getAllLiterals_def)
qed

lemma xsd_distinct:
  "xsd_integer \<noteq> xsd_dateTime" "xsd_decimal \<noteq> xsd_dateTime" "xsd_decimal \<noteq> xsd_integer"
  "xsd_string \<noteq> xsd_dateTime" "xsd_string \<noteq> xsd_integer" "xsd_string \<noteq> xsd_decimal"
  by (simp_all add: xsd_dateTime_def xsd_integer_def xsd_decimal_def xsd_string_def)

lemmas read_defs = get_def findObjectsInStore_def getDocument_def asRef_def readWorld_def
  nanWorld_def mockStatementNode_def mockStatementLiteral_def mockStatementLiteral2_def
  mockObjectLiteral_def mockObjectLiteral2_def mockDocument_def mockSubject_def mockPredicate_def
  mockObjectNode_def rdf_langString_def st_def sym_def

lemmas codec_defs = fromLiteral_def xsd_dateTime_def xsd_integer_def xsd_decimal_def xsd_string_def

lemmas parse_defs = parseInt10_def parseFloat_def stripSign_def isStrWhiteSpaceChar_def
  isDecimalDigit_def digitsValue_def exponentPart_def scale10_def noIntegerPrefix_def
  noDecimalPrefix_def

text \<open>
  C7. Of the objects that match a subject and a predicate, in source order,
  \<open>getLiteral\<close> decodes the first that is a literal, whatever references or blank
  nodes stand before it; with no literal among them it returns null.
\<close>

theorem getLiteral_first_literal:
  "(get w s p = pre @ Literal l # post \<and> (\<forall>x\<in>set pre. \<not> isLiteral x)
      \<longrightarrow> getLiteral rt w s p = Some (fromLiteral rt l)) \<and>
   ((\<forall>x\<in>set (get w s p). \<not> isLiteral x) \<longrightarrow> getLiteral rt w s p = None)"
  using getLiteral_first [of w s p pre l post rt] getLiteral_None_iff [of rt w s p] by blast

text \<open>
  A reference, then two literals: the first literal is returned. A predicate with no
  statement: null.
\<close>

theorem getLiteral_first_literal_witness:
  "get readWorld 0 mockPredicate =
     [NamedNode mockObjectNode] @ Literal mockObjectLiteral # [Literal mockObjectLiteral2] \<and>
   getLiteral plainRuntime readWorld 0 mockPredicate = Some (JString ''Arbitrary literal value'') \<and>
   getLiteral plainRuntime readWorld 0 mockObjectNode = None"
proof -
  have g: "get readWorld 0 mockPredicate =
      [NamedNode mockObjectNode] @ Literal mockObjectLiteral # [Literal mockObjectLiteral2]"
    by (simp add: read_defs)
  have n: "get readWorld 0 mockObjectNode = []"
    by (simp add: read_defs)
  have f: "fromLiteral plainRuntime mockObjectLiteral = JString ''Arbitrary literal value''"
    by (simp add: codec_defs mockObjectLiteral_def rdf_langString_def)
  show ?thesis
    using getLiteral_first_literal [of readWorld 0 mockPredicate "[NamedNode mockObjectNode]"
        mockObjectLiteral "[Literal mockObjectLiteral2]" plainRuntime]
      getLiteral_first_literal [of readWorld 0 mockObjectNode "[]" mockObjectLiteral "[]" plainRuntime]
      g n f
    by simp
qed

subsection \<open>Literals of other datatypes\<close>

lemma fromLiteral_other:
  "datatype_uri l \<notin> {xsd_dateTime, xsd_integer, xsd_decimal} \<Longrightarrow> fromLiteral rt l = JString (lit_value l)"
  by (simp add: fromLiteral_def)

text \<open>
  C8, as the program has it. A literal whose datatype is none of dateTime, integer and
  decimal (a string with a language tag, a literal of a datatype the codec does not
  know) is decoded to its lexical form, a string: \<open>getLiteral\<close> returns that string
  when the literal is the first one, and \<open>getAllLiterals\<close> has it among its results.
\<close>

theorem getters_return_other_datatypes:
  assumes "datatype_uri l \<notin> {xsd_dateTime, xsd_integer, xsd_decimal}"
  shows "fromLiteral rt l = JString (lit_value l) \<and>
         (get w s p = pre @ Literal l # post \<and> (\<forall>x\<in>set pre. \<not> isLiteral x)
            \<longrightarrow> getLiteral rt w s p = Some (JString (lit_value l))) \<and>
         (Literal l \<in> set (get w s p) \<longrightarrow> JString (lit_value l) \<in> set (getAllLiterals rt w s p))"
  using fromLiteral_other [OF assms, of rt] getLiteral_first [of w s p pre l post rt]
    getAllLiterals_member [of l w s p rt]
  by auto

theorem getters_return_other_datatypes_witness:
  "datatype_uri mockObjectLiteral2 \<notin> {xsd_dateTime, xsd_integer, xsd_decimal} \<and>
   get readWorld 0 mockPredicate =
     [NamedNode mockObjectNode, Literal mockObjectLiteral] @ Literal mockObjectLiteral2 # [] \<and>
   fromLiteral plainRuntime mockObjectLiteral2 = JString ''Another arbitrary literal value'' \<and>
   JString ''Another arbitrary literal value'' \<in> set (getAllLiterals plainRuntime readWorld 0 mockPredicate)"
proof -
  have d: "datatype_uri mockObjectLiteral2 \<notin> {xsd_dateTime, xsd_integer, xsd_decimal}"
    by (simp add: mockObjectLiteral2_def xsd_dateTime_def xsd_integer_def xsd_decimal_def)
  have g: "get readWorld 0 mockPredicate =
      [NamedNode mockObjectNode, Literal mockObjectLiteral] @ Literal mockObjectLiteral2 # []"
    by (simp add: read_defs)
  have v: "lit_value mockObjectLiteral2 = ''Another arbitrary literal value''"
    by (simp add: mockObjectLiteral2_def)
  show ?thesis
    using getters_return_other_datatypes [OF d, of plainRuntime readWorld 0 mockPredicate
        "[NamedNode mockObjectNode, Literal mockObjectLiteral]" "[]"] d g v
    by simp
qed

text \<open>
  C8 as stated fails. The subject of the tests has a string with the language tag
  \<^verbatim>\<open>en\<close> and a literal of the datatype \<^verbatim>\<open>https://data.type/\<close>; \<open>getLiteral\<close> returns
  the first as a string and \<open>getAllLiterals\<close> returns both.
\<close>

theorem getters_other_datatype_counterexample:
  "lang mockObjectLiteral = ''en'' \<and>
   datatype_uri mockObjectLiteral \<notin> {xsd_string, xsd_integer, xsd_decimal, xsd_dateTime} \<and>
   datatype_uri mockObjectLiteral2 \<notin> {xsd_string, xsd_integer, xsd_decimal, xsd_dateTime} \<and>
   getLiteral plainRuntime readWorld 0 mockPredicate = Some (JString ''Arbitrary literal value'') \<and>
   getAllLiterals plainRuntime readWorld 0 mockPredicate =
     [JString ''Arbitrary literal value'', JString ''Another arbitrary literal value'']"
  by (simp add: getLiteral_def getAllLiterals_def read_defs codec_defs)

subsection \<open>Numeric literals that are no number\<close>

lemma dropWhile_no_prefix: "takeWhile P xs = [] \<Longrightarrow> dropWhile P xs = xs"
  by (cases xs) (auto split: if_splits)

lemma parseInt10_NaN_iff: "parseInt10 v = NaN \<longleftrightarrow> noIntegerPrefix v"
  by (auto simp: parseInt10_def noIntegerPrefix_def Let_def split: prod.splits)

lemma parseFloat_NaN_iff: "parseFloat v = NaN \<longleftrightarrow> noDecimalPrefix v"
proof -
  obtain negative u where su: "stripSign (dropWhile isStrWhiteSpaceChar v) = (negative, u)"
    by (cases "stripSign (dropWhile isStrWhiteSpaceChar v)")
  show ?thesis
  proof (cases "takeWhile isDecimalDigit u = []")
    case True
    then have "dropWhile isDecimalDigit u = u" by (rule dropWhile_no_prefix)
    with True su show ?thesis
      by (simp add: parseFloat_def noDecimalPrefix_def Let_def)
  next
    case False
    with su show ?thesis
      by (simp add: parseFloat_def noDecimalPrefix_def Let_def)
  qed
qed

lemma fromLiteral_unparsable:
  assumes "(datatype_uri l = xsd_integer \<and> noIntegerPrefix (lit_value l)) \<or>
           (datatype_uri l = xsd_decimal \<and> noDecimalPrefix (lit_value l))"
  shows "fromLiteral rt l = JNumber NaN"
  using assms xsd_distinct by (auto simp: fromLiteral_def parseInt10_NaN_iff parseFloat_NaN_iff)

text \<open>
  C9, as the program has it. A literal of datatype integer or decimal whose lexical
  form is not parsable as a number is decoded to the number \<open>NaN\<close>: \<open>getLiteral\<close>
  returns \<open>NaN\<close> when the literal is the first one, and \<open>getAllLiterals\<close> has \<open>NaN\<close>
  among its results. The getters return a value for every store; they do not throw.
\<close>

theorem getters_return_NaN:
  assumes "(datatype_uri l = xsd_integer \<and> noIntegerPrefix (lit_value l)) \<or>
           (datatype_uri l = xsd_decimal \<and> noDecimalPrefix (lit_value l))"
  shows "fromLiteral rt l = JNumber NaN \<and>
         (get w s p = pre @ Literal l # post \<and> (\<forall>x\<in>set pre. \<not> isLiteral x)
            \<longrightarrow> getLiteral rt w s p = Some (JNumber NaN)) \<and>
         (Literal l \<in> set (get w s p) \<longrightarrow> JNumber NaN \<in> set (getAllLiterals rt w s p))"
  using fromLiteral_unparsable [OF assms, of rt] getLiteral_first [of w s p pre l post rt]
    getAllLiterals_member [of l w s p rt]
  by auto

theorem getters_return_NaN_witness:
  "noDecimalPrefix ''.'' \<and>
   get nanWorld 0 mockPredicate =
     [Literal \<lparr>lit_value = ''abc'', lang = [], datatype_uri = xsd_integer\<rparr>] @
     Literal \<lparr>lit_value = ''.'', lang = [], datatype_uri = xsd_decimal\<rparr> # [] \<and>
   fromLiteral plainRuntime \<lparr>lit_value = ''.'', lang = [], datatype_uri = xsd_decimal\<rparr> = JNumber NaN \<and>
   JNumber NaN \<in> set (getAllLiterals plainRuntime nanWorld 0 mockPredicate)"
proof -
  let ?l = "\<lparr>lit_value = ''.'', lang = [], datatype_uri = xsd_decimal\<rparr>"
  let ?pre = "[Literal \<lparr>lit_value = ''abc'', lang = [], datatype_uri = xsd_integer\<rparr>]"
  have n: "noDecimalPrefix ''.''"
    by (simp add: parse_defs)
  have g: "get nanWorld 0 mockPredicate = ?pre @ Literal ?l # []"
    by (simp add: read_defs)
  show ?thesis
    using getters_return_NaN [of ?l plainRuntime nanWorld 0 mockPredicate ?pre "[]"] n g
    by simp
qed

text \<open>
  C9 as stated fails. The integer \<^verbatim>\<open>abc\<close> and the decimal \<^verbatim>\<open>.\<close> are not parsable;
  \<open>getLiteral\<close> returns the number \<open>NaN\<close> for the first, where the claim has it
  report that there is no value, and \<open>getAllLiterals\<close> returns \<open>NaN\<close> twice.
\<close>

theorem getters_unparsable_counterexample:
  "noIntegerPrefix ''abc'' \<and> noDecimalPrefix ''.'' \<and>
   getLiteral plainRuntime nanWorld 0 mockPredicate = Some (JNumber NaN) \<and>
   getLiteral plainRuntime nanWorld 0 mockPredicate \<noteq> None \<and>
   getAllLiterals plainRuntime nanWorld 0 mockPredicate = [JNumber NaN, JNumber NaN]"
  by (simp add: getLiteral_def getAllLiterals_def read_defs codec_defs parse_defs)

subsection \<open>Staging\<close>

lemma pushAddition_subject:
  "subjects (pushAddition w s q) ! s' =
     (if s' = s \<and> s < length (subjects w)
      then (subjects w ! s)\<lparr>pendingAdditions := pendingAdditions (subjects w ! s) @ [q]\<rparr>
      else subjects w ! s')"
proof (cases "s < length (subjects w)")
  case True
  then show ?thesis by (simp add: pushAddition_def nth_list_update)
next
  case False
  then have "(subjects w)[s := x] = subjects w" for x
    by (simp add: list_update_beyond)
  with False show ?thesis by (simp add: pushAddition_def)
qed

lemma pushAddition_frame:
  "store (pushAddition w s q) = store w"
  "documents (pushAddition w s q) = documents w"
  "metadatas (pushAddition w s q) = metadatas w"
  "length (subjects (pushAddition w s q)) = length (subjects w)"
  by (simp_all add: pushAddition_def)

lemma pushAddition_get: "get (pushAddition w s q) s' p = get w s' p"
  by (simp add: get_def getDocument_def asRef_def pushAddition_frame pushAddition_subject)

lemma pushAddition_getters:
  "getLiteral rt (pushAddition w s q) s' p = getLiteral rt w s' p"
  "getAllLiterals rt (pushAddition w s q) s' p = getAllLiterals rt w s' p"
  "getNodeRef (pushAddition w s q) s' p = getNodeRef w s' p"
  "getAllNodeRefs (pushAddition w s q) s' p = getAllNodeRefs w s' p"
  "getType (pushAddition w s q) s' = getType w s'"
  "getStatements (pushAddition w s q) s' = getStatements w s'"
  "getTriples (pushAddition w s q) d = getTriples w d"
  "pendingDeletions (subjects (pushAddition w s q) ! s') = pendingDeletions (subjects w ! s')"
  by (simp_all add: getLiteral_def getAllLiterals_def getNodeRef_def getAllNodeRefs_def getType_def
      getStatements_def getTriples_def getDocument_def asRef_def pushAddition_get pushAddition_frame
      pushAddition_subject)

text \<open>
  C10. Staging an addition (\<open>addLiteral\<close>, \<open>addNodeRef\<close>) leaves the store, the
  documents with their triples and the metadata as they were, so every getter of every
  subject returns what it returned before; no buffer of deletions and no other subject
  changes. What changes is the buffer of additions of the subject, which grows by one
  statement.
\<close>

theorem staging_is_invisible:
  assumes "w' = addLiteral rt w s p v \<or> w' = addNodeRef w s p r"
  shows "store w' = store w \<and> documents w' = documents w \<and> metadatas w' = metadatas w \<and>
         (\<forall>d. getTriples w' d = getTriples w d) \<and>
         (\<forall>s' p'. getLiteral rt' w' s' p' = getLiteral rt' w s' p' \<and>
                  getAllLiterals rt' w' s' p' = getAllLiterals rt' w s' p' \<and>
                  getNodeRef w' s' p' = getNodeRef w s' p' \<and>
                  getAllNodeRefs w' s' p' = getAllNodeRefs w s' p' \<and>
                  getType w' s' = getType w s' \<and>
                  getStatements w' s' = getStatements w s') \<and>
         (\<forall>s'. pendingDeletions (subjects w' ! s') = pendingDeletions (subjects w ! s')) \<and>
         (\<forall>s'. s' \<noteq> s \<longrightarrow> subjects w' ! s' = subjects w ! s') \<and>
         (s < length (subjects w) \<longrightarrow>
            length (pendingAdditions (subjects w' ! s)) = Suc (length (pendingAdditions (subjects w ! s))))"
proof -
  from assms obtain q where w': "w' = pushAddition w s q"
    by (auto simp: addLiteral_def addNodeRef_def)
  show ?thesis
    unfolding w' by (simp add: pushAddition_getters pushAddition_frame pushAddition_subject)
qed

text \<open>
  After a literal is added under a predicate, \<open>getLiteral\<close> for that predicate still
  returns the stored literal; the new statement is in the buffer of additions.
\<close>

theorem staging_is_invisible_witness:
  "getLiteral plainRuntime (addLiteral plainRuntime readWorld 0 mockPredicate (JString ''Some literal value''))
       0 mockPredicate
     = Some (JString ''Arbitrary literal value'') \<and>
   getLiteral plainRuntime readWorld 0 mockPredicate = Some (JString ''Arbitrary literal value'') \<and>
   getPendingStatements (addLiteral plainRuntime readWorld 0 mockPredicate (JString ''Some literal value'')) 0
     = ([], [st (sym mockSubject) (sym mockPredicate)
               (Literal \<lparr>lit_value = ''Some literal value'', lang = [], datatype_uri = xsd_string\<rparr>)
               (sym mockDocument)])"
proof -
  have g: "getLiteral plainRuntime readWorld 0 mockPredicate = Some (JString ''Arbitrary literal value'')"
    by (simp add: getLiteral_def read_defs codec_defs)
  have p: "getPendingStatements (addLiteral plainRuntime readWorld 0 mockPredicate (JString ''Some literal value'')) 0
     = ([], [st (sym mockSubject) (sym mockPredicate)
               (Literal \<lparr>lit_value = ''Some literal value'', lang = [], datatype_uri = xsd_string\<rparr>)
               (sym mockDocument)])"
    by (simp add: getPendingStatements_def addLiteral_def pushAddition_def asLiteral_def asNodeRef_def
        getDocument_def asRef_def readWorld_def)
  show ?thesis
    using staging_is_invisible [of "addLiteral plainRuntime readWorld 0 mockPredicate (JString ''Some literal value'')"
        plainRuntime readWorld 0 mockPredicate "JString ''Some literal value''" "[]" plainRuntime] g p
    by simp
qed

subsection \<open>The buffers after a save\<close>

text \<open>The earlier save clears both buffers of every subject it persisted, and no other.\<close>

lemma onSave_frame:
  "store (onSave w s) = store w" "documents (onSave w s) = documents w"
  "metadatas (onSave w s) = metadatas w" "length (subjects (onSave w s)) = length (subjects w)"
  by (simp_all add: onSave_def)

lemma onSave_subject:
  "subjects (onSave w s) ! s' =
     (if s' = s \<and> s < length (subjects w)
      then (subjects w ! s)\<lparr>pendingDeletions := [], pendingAdditions := []\<rparr>
      else subjects w ! s')"
proof (cases "s < length (subjects w)")
  case True
  then show ?thesis by (simp add: onSave_def nth_list_update)
next
  case False
  then have "(subjects w)[s := x] = subjects w" for x
    by (simp add: list_update_beyond)
  with False show ?thesis by (simp add: onSave_def)
qed

lemma foldl_onSave_subject:
  "subjects (foldl onSave w ss) ! s' =
     (if s' \<in> set ss \<and> s' < length (subjects w)
      then (subjects w ! s')\<lparr>pendingDeletions := [], pendingAdditions := []\<rparr>
      else subjects w ! s')"
proof (induction ss arbitrary: w)
  case Nil
  show ?case by simp
next
  case (Cons a ss)
  show ?case
    by (auto simp: Cons.IH onSave_subject onSave_frame)
qed

lemma save_v1_success:
  assumes "save_v1 co lib w d subjs = (w', Inr saved)"
  shows "saved = relevantSubjects w (asRef w d) subjs \<and>
         (\<forall>s. subjects w' ! s =
            (if s \<in> set saved \<and> s < length (subjects w)
             then (subjects w ! s)\<lparr>pendingDeletions := [], pendingAdditions := []\<rparr>
             else subjects w ! s))"
  using assms
  by (auto simp: save_v1_def Let_def asRef_def foldl_onSave_subject setMetadata_def
      split: if_splits sum.splits prod.splits)

lemma save_v1_failure:
  assumes "save_v1 co lib w d subjs = (w', Inl e)"
  shows "subjects w' = subjects w"
  using assms
  by (auto simp: save_v1_def Let_def split: if_splits sum.splits prod.splits)


subsection \<open>The document a save was called on\<close>

text \<open>
  C5, the later save. A document is created and saved with no subject. Before the save
  it has no ACL and no live update reference; after the save the same document has both,
  those of the server's answer: the save wrote them into the metadata object that the
  document and the one returned share. Its triples are what they were.
\<close>

theorem save_changes_old_document:
  "(let (w0, d) = createDocument emptyWorld mockDocument;
        (w1, r) = save acceptingServer w0 d []
    in getAclRef w0 d = None \<and> getWebSocketRef w0 d = None \<and> r = Inr 1 \<and>
       getAclRef w1 d = Some ''https://document.com/.acl'' \<and>
       getWebSocketRef w1 d = Some ''wss://document.com/'' \<and>
       getTriples w1 d = getTriples w0 d)"
  by (simp add: run_defs sample_defs)

subsection \<open>The reference of a created document\<close>

text \<open>The earlier revision puts the reference together from the parsed URL, without the fragment.\<close>

lemma createDocument_v1_asRef:
  assumes "createDocument_v1 lib w uri = (w', Inr d)"
  shows "\<exists>u. URL_parse lib uri = Inr u \<and> asRef w' d = origin u @ pathname u @ search u"
  using assms
  by (auto simp: createDocument_v1_def instantiateDocument_v1_def asRef_def split: sum.splits)

lemma createDocument_v1_sample:
  "snd (createDocument_v1 fragmentParser emptyWorld ''https://x.com/doc#frag'') = Inr 0 \<and>
   asRef (fst (createDocument_v1 fragmentParser emptyWorld ''https://x.com/doc#frag'')) 0 = ''https://x.com/doc''"
  by (simp add: createDocument_v1_def instantiateDocument_v1_def asRef_def emptyWorld_def fragmentParser_def)

text \<open>The later revision takes the reference as it is given.\<close>

lemma createDocument_asRef:
  "asRef (fst (createDocument w ref)) (snd (createDocument w ref)) = ref"
  by (simp add: createDocument_def instantiateDocument_def asRef_def)

text \<open>
  C6, the later \<open>createDocument\<close>. The reference of the document created for
  \<^verbatim>\<open>https://x.com/doc#frag\<close> is \<^verbatim>\<open>https://x.com/doc#frag\<close>: the fragment is kept.
\<close>

theorem createDocument_keeps_fragment:
  "asRef (fst (createDocument emptyWorld ''https://x.com/doc#frag''))
         (snd (createDocument emptyWorld ''https://x.com/doc#frag'')) = ''https://x.com/doc#frag''"
  by (simp add: createDocument_def instantiateDocument_def asRef_def emptyWorld_def)

subsection \<open>The codec on strings\<close>

text \<open>A string is encoded with the datatype \<^verbatim>\<open>xsd:string\<close> and decoded to itself.\<close>

lemma fromLiteral_asLiteral_string: "fromLiteral rt (asLiteral rt (JString s)) = JString s"
  using xsd_distinct by (simp add: fromLiteral_def asLiteral_def)

end
